theory Spec2Isabelle
  imports Complex_Main "HOL-Library.AList"
begin

section \<open>Strings and the regular expressions of textProcessing.ts\<close>

text \<open>
  A JavaScript string is a sequence of UTF-16 code units. The model uses \<open>string\<close>
  (a \<open>char list\<close>), so it covers the texts whose code units are all below 256; on these
  the character classes below are exactly JavaScript's.
  \<^item> \<open>isSpace\<close> is the class \<open>\s\<close>, which is also what \<open>trim\<close> strips: TAB, LF, VT, FF,
    CR, SPACE and NO-BREAK SPACE.
  \<^item> \<open>isWordChar\<close> is the class \<open>\w\<close>: \<open>[A-Za-z0-9_]\<close>.
  \<^item> \<open>isPunct\<close> is the class \<open>[.!?]\<close>.
\<close>

definition isSpace :: "char \<Rightarrow> bool" where
  "isSpace c = (c \<in> set [CHR 0x09, CHR 0x0A, CHR 0x0B, CHR 0x0C, CHR 0x0D, CHR 0x20, CHR 0xA0])"

definition isWordChar :: "char \<Rightarrow> bool" where
  "isWordChar c = (let n = (of_char c :: nat) in
      (48 \<le> n \<and> n \<le> 57) \<or> (65 \<le> n \<and> n \<le> 90) \<or> n = 95 \<or> (97 \<le> n \<and> n \<le> 122))"

definition isPunct :: "char \<Rightarrow> bool" where
  "isPunct c = (c \<in> set ''.!?'')"

text \<open>\<open>String.prototype.toLowerCase\<close> on code units below 256: the ASCII capitals and
  the Latin-1 capitals (all of U+00C0..U+00DE but the multiplication sign) move up by 32.\<close>

definition lowerChar :: "char \<Rightarrow> char" where
  "lowerChar c = (let n = (of_char c :: nat) in
      if (65 \<le> n \<and> n \<le> 90) \<or> (192 \<le> n \<and> n \<le> 222 \<and> n \<noteq> 215)
      then char_of (n + 32) else c)"

definition toLowerCase :: "string \<Rightarrow> string" where
  "toLowerCase s = map lowerChar s"

definition trim :: "string \<Rightarrow> string" where
  "trim s = rev (dropWhile isSpace (rev (dropWhile isSpace s)))"

text \<open>\<open>s.substring(a, b)\<close>: both indices are clamped to \<open>[0, length]\<close> and swapped when
  \<open>a > b\<close>; \<open>s.substring(a)\<close> runs to the end of the string.\<close>

definition substring :: "string \<Rightarrow> int \<Rightarrow> int \<Rightarrow> string" where
  "substring s a b =
     (let n = int (length s);
          a' = max 0 (min a n);
          b' = max 0 (min b n);
          lo = min a' b';
          hi = max a' b'
      in take (nat (hi - lo)) (drop (nat lo) s))"

definition substringFrom :: "string \<Rightarrow> int \<Rightarrow> string" where
  "substringFrom s a = substring s a (int (length s))"

text \<open>
  A regular expression is modelled by its matcher: given the rest of the string from the
  position tried, the length of the match that starts there, or \<open>None\<close>. The four
  patterns of the source never match the empty string.
  \<^item> \<open>/\s+/\<close>: the longest run of white space.
  \<^item> \<open>/[.!?]+/\<close>: the longest run of terminators.
  \<^item> \<open>/[.!?]+\s+/\<close>: the longest run of terminators, then the longest run of white
    space; the two classes are disjoint, so backtracking changes nothing.
  \<^item> \<open>/\n\s*\n/\<close>: a line feed, then white space up to the last line feed of the run of
    white space that follows (\<open>\s*\<close> is greedy and gives back until a line feed is next).
  \<^item> \<open>/[^\w\s]/\<close>: one character that is neither a word character nor white space.
\<close>

definition matchSpaces :: "string \<Rightarrow> nat option" where
  "matchSpaces s =
     (let n = length (takeWhile isSpace s) in if n = 0 then None else Some n)"

definition matchTerminators :: "string \<Rightarrow> nat option" where
  "matchTerminators s =
     (let n = length (takeWhile isPunct s) in if n = 0 then None else Some n)"

definition sentenceEndPattern :: "string \<Rightarrow> nat option" where
  "sentenceEndPattern s =
     (let p = length (takeWhile isPunct s);
          w = length (takeWhile isSpace (drop p s))
      in if p = 0 \<or> w = 0 then None else Some (p + w))"

definition paragraphPattern :: "string \<Rightarrow> nat option" where
  "paragraphPattern s =
     (case s of
        [] \<Rightarrow> None
      | c # rest \<Rightarrow>
          if c \<noteq> CHR 0x0A then None
          else let run = takeWhile isSpace rest in
               if CHR 0x0A \<in> set run
               then Some (1 + (length run - length (takeWhile (\<lambda>d. d \<noteq> CHR 0x0A) (rev run))))
               else None)"

definition matchNonWordNonSpace :: "string \<Rightarrow> nat option" where
  "matchNonWordNonSpace s =
     (case s of [] \<Rightarrow> None
      | c # _ \<Rightarrow> if \<not> isWordChar c \<and> \<not> isSpace c then Some 1 else None)"

text \<open>\<open>s.split(re)\<close>: the pieces between the successive leftmost matches; a match at the
  very end leaves an empty last piece, and the empty string splits into one empty piece.\<close>

fun splitBy :: "(string \<Rightarrow> nat option) \<Rightarrow> string \<Rightarrow> string \<Rightarrow> string list" where
  "splitBy m acc [] = [rev acc]"
| "splitBy m acc (c # cs) =
     (case m (c # cs) of
        Some (Suc k) \<Rightarrow> rev acc # splitBy m [] (drop k cs)
      | _ \<Rightarrow> splitBy m (c # acc) cs)"

definition split :: "(string \<Rightarrow> nat option) \<Rightarrow> string \<Rightarrow> string list" where
  "split m s = splitBy m [] s"

text \<open>\<open>s.replace(re, rep)\<close> with the \<open>g\<close> flag.\<close>

fun replaceAll :: "(string \<Rightarrow> nat option) \<Rightarrow> string \<Rightarrow> string \<Rightarrow> string" where
  "replaceAll m rep [] = []"
| "replaceAll m rep (c # cs) =
     (case m (c # cs) of
        Some (Suc k) \<Rightarrow> rep @ replaceAll m rep (drop k cs)
      | _ \<Rightarrow> c # replaceAll m rep cs)"

text \<open>\<open>s.includes(t)\<close>, and \<open>xs.indexOf(x)\<close> for an element that occurs.\<close>

fun includesStr :: "string \<Rightarrow> string \<Rightarrow> bool" where
  "includesStr [] t = (t = [])"
| "includesStr (c # cs) t = (take (length t) (c # cs) = t \<or> includesStr cs t)"

definition indexOf :: "'a list \<Rightarrow> 'a \<Rightarrow> nat" where
  "indexOf xs x = length (takeWhile (\<lambda>y. y \<noteq> x) xs)"

section \<open>The tokenizer: preprocessText and extractTerms\<close>

definition preprocessText :: "string \<Rightarrow> string" where
  "preprocessText text =
     trim (replaceAll matchSpaces '' ''
            (replaceAll matchNonWordNonSpace '' '' (toLowerCase text)))"

definition stopWords :: "string list" where
  "stopWords =
     [''the'', ''a'', ''an'', ''and'', ''or'', ''but'', ''in'', ''on'', ''at'', ''to'', ''for'',
      ''of'', ''with'', ''by'', ''is'', ''are'', ''was'', ''were'', ''be'', ''been'', ''have'',
      ''has'', ''had'', ''do'', ''does'', ''did'', ''will'', ''would'', ''could'', ''should'',
      ''may'', ''might'', ''must'', ''can'', ''this'', ''that'', ''these'', ''those'', ''i'',
      ''you'', ''he'', ''she'', ''it'', ''we'', ''they'', ''me'', ''him'', ''her'', ''us'',
      ''them'', ''my'', ''your'', ''his'', ''its'', ''our'', ''their'']"

text \<open>The tokens that survive the first filter of \<open>extractTerms\<close>, repeats included.\<close>

definition survivingTokens :: "string \<Rightarrow> string list" where
  "survivingTokens text =
     filter (\<lambda>term. length term > 2 \<and> term \<notin> set stopWords)
            (split matchSpaces (preprocessText text))"

text \<open>The second filter keeps an element only at the index of its first occurrence.\<close>

definition removeDuplicates :: "'a list \<Rightarrow> 'a list" where
  "removeDuplicates array =
     map snd (filter (\<lambda>(index, term). indexOf array term = index) (enumerate 0 array))"

definition extractTerms :: "string \<Rightarrow> string list" where
  "extractTerms text = removeDuplicates (survivingTokens text)"

section \<open>The chunker: chunkText\<close>

definition targetSize :: nat where "targetSize = 800"
definition maxSize :: nat where "maxSize = 1200"
definition minSize :: nat where "minSize = 200"
definition overlapSize :: nat where "overlapSize = 100"

record DocumentChunk =
  chunkId :: string
  ctext :: string
  pageNumber :: nat
  chunkIndex :: nat
  startOffset :: int
  endOffset :: int

text \<open>The decimal numeral of a chunk index, for the template string \<open>chunk-${chunkIndex}\<close>.\<close>

fun showNat :: "nat \<Rightarrow> string" where
  "showNat n =
     (if n < 10 then [char_of (48 + n)]
      else showNat (n div 10) @ [char_of (48 + n mod 10)])"

declare showNat.simps [simp del]

fun getPageNumberLoop :: "nat \<Rightarrow> int \<Rightarrow> int list \<Rightarrow> nat" where
  "getPageNumberLoop i offset [] = i + 1"
| "getPageNumberLoop i offset (b # bs) =
     (if offset < b then i + 1 else getPageNumberLoop (i + 1) offset bs)"

definition getPageNumber :: "int \<Rightarrow> int list \<Rightarrow> nat" where
  "getPageNumber offset pageBreaks = getPageNumberLoop 0 offset pageBreaks"

definition createChunk :: "string \<Rightarrow> nat \<Rightarrow> int \<Rightarrow> int \<Rightarrow> int list \<Rightarrow> DocumentChunk" where
  "createChunk text index start end pageBreaks =
     \<lparr>chunkId = ''chunk-'' @ showNat index,
      ctext = text,
      pageNumber = getPageNumber start pageBreaks,
      chunkIndex = index,
      startOffset = start,
      endOffset = end\<rparr>"

text \<open>The loop of \<open>findGoodBreakPoint\<close> over all sentences but the last; \<open>break\<close> ends it.\<close>

fun breakPointLoop :: "string list \<Rightarrow> nat \<Rightarrow> nat \<Rightarrow> nat" where
  "breakPointLoop [] position bestBreak = bestBreak"
| "breakPointLoop (sentence # rest) position bestBreak =
     (let position = position + length sentence + 1
      in if position \<ge> minSize \<and> position \<le> targetSize then breakPointLoop rest position position
         else if position > targetSize then bestBreak
         else breakPointLoop rest position bestBreak)"

definition findGoodBreakPoint :: "string \<Rightarrow> nat" where
  "findGoodBreakPoint text =
     breakPointLoop (butlast (split sentenceEndPattern text)) 0 (length text)"

text \<open>\<open>overlap.indexOf(' ')\<close> is \<open>-1\<close> when there is no space.\<close>

definition getOverlapText :: "string \<Rightarrow> nat \<Rightarrow> string" where
  "getOverlapText text overlapLen =
     (if length text \<le> overlapLen then text
      else
        let overlap = substringFrom text (int (length text) - int overlapLen);
            spaceIndex = (if CHR '' '' \<in> set overlap then int (indexOf overlap CHR '' '') else - 1)
        in if spaceIndex > 0 then substringFrom overlap (spaceIndex + 1) else overlap)"

text \<open>The local variables of \<open>chunkText\<close>.\<close>

record Chunker =
  emitted :: "DocumentChunk list"
  nextIndex :: nat
  currentPosition :: int
  currentChunk :: string
  chunkStartPosition :: int

text \<open>The first half of the loop body: the paragraph meets the buffer. In the branch
  that finalizes the buffer, the paragraph itself is not appended.\<close>

definition addParagraph :: "int list \<Rightarrow> string \<Rightarrow> Chunker \<Rightarrow> Chunker" where
  "addParagraph pageBreaks paragraph st =
     (if currentChunk st \<noteq> [] \<and> length (currentChunk st) + length paragraph > maxSize then
        (if length (currentChunk st) \<ge> minSize then
           let overlap = getOverlapText (currentChunk st) overlapSize
           in st\<lparr>emitted := emitted st @
                    [createChunk (trim (currentChunk st)) (nextIndex st) (chunkStartPosition st)
                       (currentPosition st - 1) pageBreaks],
                  nextIndex := nextIndex st + 1,
                  currentChunk := overlap,
                  chunkStartPosition := currentPosition st - int (length overlap)\<rparr>
         else st\<lparr>currentChunk := currentChunk st @ [CHR 0x0A, CHR 0x0A] @ paragraph\<rparr>)
      else
        (if currentChunk st \<noteq> [] then
           st\<lparr>currentChunk := currentChunk st @ [CHR 0x0A, CHR 0x0A] @ paragraph\<rparr>
         else st\<lparr>currentChunk := paragraph, chunkStartPosition := currentPosition st\<rparr>))"

text \<open>The second half: a buffer of the target size is cut at a sentence boundary.\<close>

definition breakAtSentence :: "int list \<Rightarrow> Chunker \<Rightarrow> Chunker" where
  "breakAtSentence pageBreaks st =
     (if length (currentChunk st) \<ge> targetSize then
        let sentenceBreak = findGoodBreakPoint (currentChunk st)
        in if sentenceBreak > minSize then
             st\<lparr>emitted := emitted st @
                    [createChunk (trim (substring (currentChunk st) 0 (int sentenceBreak)))
                       (nextIndex st) (chunkStartPosition st)
                       (chunkStartPosition st + int sentenceBreak) pageBreaks],
                nextIndex := nextIndex st + 1,
                currentChunk :=
                  trim (substringFrom (currentChunk st) (int sentenceBreak - int overlapSize)),
                chunkStartPosition :=
                  chunkStartPosition st + int sentenceBreak - int overlapSize\<rparr>
           else st
      else st)"

definition processParagraph :: "int list \<Rightarrow> Chunker \<Rightarrow> string \<Rightarrow> Chunker" where
  "processParagraph pageBreaks st rawParagraph =
     (let paragraph = trim rawParagraph
      in if paragraph = [] then
           st\<lparr>currentPosition := currentPosition st + int (length paragraph) + 2\<rparr>
         else
           let st1 = addParagraph pageBreaks paragraph st;
               st2 = st1\<lparr>currentPosition := currentPosition st1 + int (length paragraph) + 2\<rparr>
           in breakAtSentence pageBreaks st2)"

definition finalChunk :: "int list \<Rightarrow> Chunker \<Rightarrow> DocumentChunk list" where
  "finalChunk pageBreaks st =
     (if trim (currentChunk st) \<noteq> [] \<and> length (currentChunk st) \<ge> minSize then
        emitted st @
          [createChunk (trim (currentChunk st)) (nextIndex st) (chunkStartPosition st)
             (currentPosition st - 1) pageBreaks]
      else emitted st)"

definition chunkText :: "string \<Rightarrow> int list \<Rightarrow> DocumentChunk list" where
  "chunkText text pageBreaks =
     finalChunk pageBreaks
       (foldl (processParagraph pageBreaks)
              \<lparr>emitted = [], nextIndex = 0, currentPosition = 0, currentChunk = [],
               chunkStartPosition = 0\<rparr>
              (split paragraphPattern text))"

section \<open>Key sentences: extractKeySentences\<close>

text \<open>
  \<open>array.sort(comparefn)\<close> is stable (ECMAScript 2019), and a result of \<open>comparefn\<close>
  that is \<open>NaN\<close> counts as \<open>+0\<close>. The model is the stable insertion sort; its argument
  \<open>after x y\<close> says that \<open>comparefn(x, y)\<close> is positive, so that \<open>x\<close> goes behind \<open>y\<close>.
  Where the comparison is a consistent one, every conforming engine returns this list;
  where it is not, the language leaves the order to the engine, and the model is one of
  the orders an engine may return.
\<close>

fun insertSorted :: "('a \<Rightarrow> 'a \<Rightarrow> bool) \<Rightarrow> 'a \<Rightarrow> 'a list \<Rightarrow> 'a list" where
  "insertSorted after x [] = [x]"
| "insertSorted after x (y # ys) =
     (if after x y then y # insertSorted after x ys else x # y # ys)"

definition jsSort :: "('a \<Rightarrow> 'a \<Rightarrow> bool) \<Rightarrow> 'a list \<Rightarrow> 'a list" where
  "jsSort after xs = foldr (insertSorted after) xs []"

text \<open>\<open>array.slice(0, k)\<close> for an integer \<open>k\<close>: a negative \<open>k\<close> counts from the end.\<close>

definition sliceTo :: "int \<Rightarrow> 'a list \<Rightarrow> 'a list" where
  "sliceTo k xs = (if k < 0 then take (nat (int (length xs) + k)) xs else take (nat k) xs)"

text \<open>The errors the code throws: the one \<open>search\<close> raises before initialization, and the
  \<open>SyntaxError\<close> of \<open>new RegExp\<close> on a string that is not a pattern.\<close>

datatype error = NotInitialized | SyntaxError

text \<open>
  \<open>(sentenceLower.match(new RegExp(term, 'g')) || []).length\<close> reads the term as a pattern:
  the constructor throws \<open>SyntaxError\<close> when the term is not a valid pattern, and otherwise
  the length is the number of matches of the pattern in the sentence.
  \<^item> A term without any of the syntax characters \<open>^ $ . * + ? ( ) [ ] { } |\<close> and backslash
    is a pattern that matches itself and nothing else: \<open>literalPattern\<close>. Its matches are the
    successive leftmost occurrences, none overlapping another; the empty pattern matches
    once at every position, the end included: \<open>occurrences\<close>.
  \<^item> For a term with syntax characters, whether the constructor throws and what the
    pattern matches is the matter of the regular-expression engine of the platform. The
    engine is a parameter of the model, \<open>regExp\<close>: for such a term it gives the error, or
    the function that counts the matches in a string.
\<close>

type_synonym regExpEngine = "string \<Rightarrow> error + (string \<Rightarrow> nat)"

definition syntaxCharacter :: "char \<Rightarrow> bool" where
  "syntaxCharacter c = (c \<in> set (CHR 0x5C # ''^$.*+?()[]{}|''))"

definition literalPattern :: "string \<Rightarrow> bool" where
  "literalPattern term = (filter syntaxCharacter term = [])"

definition matchLiteral :: "string \<Rightarrow> string \<Rightarrow> nat option" where
  "matchLiteral term s = (if take (length term) s = term then Some (length term) else None)"

fun countMatches :: "(string \<Rightarrow> nat option) \<Rightarrow> string \<Rightarrow> nat" where
  "countMatches m [] = 0"
| "countMatches m (c # cs) =
     (case m (c # cs) of
        Some (Suc k) \<Rightarrow> Suc (countMatches m (drop k cs))
      | _ \<Rightarrow> countMatches m cs)"

definition occurrences :: "string \<Rightarrow> string \<Rightarrow> nat" where
  "occurrences term sentenceLower =
     (if term = [] then Suc (length sentenceLower)
      else countMatches (matchLiteral term) sentenceLower)"

definition globalMatchCount :: "regExpEngine \<Rightarrow> string \<Rightarrow> error + (string \<Rightarrow> nat)" where
  "globalMatchCount regExp term =
     (if literalPattern term then Inr (occurrences term) else regExp term)"

text \<open>The inner loop over the query terms: it adds to the score, or throws.\<close>

fun scoreTerms :: "regExpEngine \<Rightarrow> string \<Rightarrow> nat \<Rightarrow> string list \<Rightarrow> error + nat" where
  "scoreTerms regExp sentenceLower score [] = Inr score"
| "scoreTerms regExp sentenceLower score (term # terms) =
     (case globalMatchCount regExp term of
        Inl e \<Rightarrow> Inl e
      | Inr count \<Rightarrow>
          scoreTerms regExp sentenceLower (score + count sentenceLower * length term) terms)"

text \<open>The body of the loop over the sentences: the score of one sentence.\<close>

definition sentenceScore :: "regExpEngine \<Rightarrow> string list \<Rightarrow> string \<Rightarrow> error + nat" where
  "sentenceScore regExp queryTermsLower sentence =
     (let sentenceLower = toLowerCase sentence
      in case scoreTerms regExp sentenceLower 0 queryTermsLower of
           Inl e \<Rightarrow> Inl e
         | Inr score \<Rightarrow>
             let uniqueTermsFound =
                   length (filter (\<lambda>term. includesStr sentenceLower term) queryTermsLower)
             in Inr (if uniqueTermsFound > 1 then score + uniqueTermsFound * 50 else score))"

text \<open>The loop over the sentences: a sentence of positive score is pushed.\<close>

fun scoreSentences ::
  "regExpEngine \<Rightarrow> string list \<Rightarrow> (string \<times> nat) list \<Rightarrow> string list
     \<Rightarrow> error + (string \<times> nat) list" where
  "scoreSentences regExp queryTermsLower scoredSentences [] = Inr scoredSentences"
| "scoreSentences regExp queryTermsLower scoredSentences (sentence # sentences) =
     (case sentenceScore regExp queryTermsLower sentence of
        Inl e \<Rightarrow> Inl e
      | Inr score \<Rightarrow>
          scoreSentences regExp queryTermsLower
            (if score > 0 then scoredSentences @ [(sentence, score)] else scoredSentences)
            sentences)"

definition extractKeySentences ::
  "regExpEngine \<Rightarrow> string \<Rightarrow> string list \<Rightarrow> error + string list" where
  "extractKeySentences regExp text queryTerms =
     (let sentences = filter (\<lambda>s. length s > 0) (map trim (split matchTerminators text));
          queryTermsLower = map toLowerCase queryTerms
      in case scoreSentences regExp queryTermsLower [] sentences of
           Inl e \<Rightarrow> Inl e
         | Inr scoredSentences \<Rightarrow>
             Inr (map fst (sliceTo 3 (jsSort (\<lambda>a b. snd b > snd a) scoredSentences))))"

section \<open>Numbers, maps and objects of vectorStore.ts\<close>

text \<open>
  A JavaScript number is modelled as a real number or \<open>NaN\<close>: the arithmetic is exact,
  so the rounding of IEEE 754 doubles is outside the model, and so are the infinities
  (no division of the source has a zero divisor: the only one that could is guarded).
\<close>

datatype jsnum = Num real | NaN

fun jsAdd :: "jsnum \<Rightarrow> jsnum \<Rightarrow> jsnum" where
  "jsAdd (Num a) (Num b) = Num (a + b)"
| "jsAdd _ _ = NaN"

fun jsSub :: "jsnum \<Rightarrow> jsnum \<Rightarrow> jsnum" where
  "jsSub (Num a) (Num b) = Num (a - b)"
| "jsSub _ _ = NaN"

fun jsMul :: "jsnum \<Rightarrow> jsnum \<Rightarrow> jsnum" where
  "jsMul (Num a) (Num b) = Num (a * b)"
| "jsMul _ _ = NaN"

fun jsSqrt :: "jsnum \<Rightarrow> jsnum" where
  "jsSqrt (Num a) = (if a < 0 then NaN else Num (sqrt a))"
| "jsSqrt NaN = NaN"

fun positive :: "jsnum \<Rightarrow> bool" where
  "positive (Num a) = (0 < a)"
| "positive NaN = False"

text \<open>
  A \<open>Map\<close> is an association list in insertion order: \<open>get\<close> is \<open>map_of\<close>, and \<open>set\<close> is
  \<open>AList.update\<close>, which overwrites in place or appends. A \<open>Set\<close> is a list without
  repeats, \<open>add\<close> appending what is new.
\<close>

definition setAdd :: "'a \<Rightarrow> 'a list \<Rightarrow> 'a list" where
  "setAdd x s = (if x \<in> set s then s else s @ [x])"

text \<open>\<open>map.get(key) || 0\<close> for a map of numbers.\<close>

definition getOrZero :: "('k \<times> 'v::zero) list \<Rightarrow> 'k \<Rightarrow> 'v" where
  "getOrZero m key = (case map_of m key of Some v \<Rightarrow> v | None \<Rightarrow> 0)"

text \<open>
  A \<open>TFIDFVector\<close> is a plain object created by \<open>{}\<close>: its own properties, in the order
  of their creation, and behind them the properties that every object inherits from
  \<open>Object.prototype\<close>.
  \<^item> Reading \<open>vector[key]\<close> gives the own property if there is one; if not, the inherited
    function or object when \<open>key\<close> is one of the names of \<open>Object.prototype\<close>; if not,
    \<open>undefined\<close>.
  \<^item> Writing \<open>vector[key] = number\<close> creates or overwrites the own property, but for the
    key \<open>__proto__\<close>: that is the inherited setter, which ignores a number.
  \<^item> \<open>Object.keys\<close> lists the own properties. (It lists keys that are array indices
    first; the sums taken over the keys do not depend on their order.)
\<close>

type_synonym TFIDFVector = "(string \<times> real) list"

datatype jsval = Undefined | Number real | Object

definition objectPrototypeProps :: "string list" where
  "objectPrototypeProps =
     [''constructor'', ''__defineGetter__'', ''__defineSetter__'', ''hasOwnProperty'',
      ''__lookupGetter__'', ''__lookupSetter__'', ''isPrototypeOf'', ''propertyIsEnumerable'',
      ''toString'', ''valueOf'', ''__proto__'', ''toLocaleString'']"

definition getProp :: "TFIDFVector \<Rightarrow> string \<Rightarrow> jsval" where
  "getProp vector key =
     (case map_of vector key of
        Some v \<Rightarrow> Number v
      | None \<Rightarrow> if key \<in> set objectPrototypeProps then Object else Undefined)"

definition setProp :: "TFIDFVector \<Rightarrow> string \<Rightarrow> real \<Rightarrow> TFIDFVector" where
  "setProp vector key v = (if key = ''__proto__'' then vector else AList.update key v vector)"

definition objectKeys :: "TFIDFVector \<Rightarrow> string list" where
  "objectKeys vector = map fst vector"

text \<open>\<open>value || 0\<close>: \<open>undefined\<close> and the number zero are falsy, a function or an object is
  truthy. \<open>toNumber\<close> is the conversion that \<open>*\<close> applies to its operands: a function or an
  object of \<open>Object.prototype\<close> converts to \<open>NaN\<close>.\<close>

fun orZero :: "jsval \<Rightarrow> jsval" where
  "orZero Undefined = Number 0"
| "orZero (Number v) = Number v"
| "orZero Object = Object"

fun toNumber :: "jsval \<Rightarrow> jsnum" where
  "toNumber (Number v) = Num v"
| "toNumber Undefined = NaN"
| "toNumber Object = NaN"

section \<open>The data model\<close>

record ProcessedChunk = DocumentChunk +
  tfidfVector :: TFIDFVector
  termCount :: nat

record SearchResult =
  chunk :: ProcessedChunk
  similarity :: jsnum
  relevantSentences :: "string list"

record VectorStore =
  chunks :: "ProcessedChunk list"
  vocabulary :: "string list"
  idfScores :: "(string \<times> real) list"
  isInitialized :: bool

record Stats =
  chunkCount :: nat
  vocabularySize :: nat
  averageChunkLength :: nat
  isInitializedStat :: bool

section \<open>The vector store\<close>

text \<open>The values of the fields before the constructor's body runs.\<close>

definition newStore :: VectorStore where
  "newStore = \<lparr>chunks = [], vocabulary = [], idfScores = [], isInitialized = False\<rparr>"

definition termDocumentCounts :: "string list list \<Rightarrow> (string \<times> nat) list" where
  "termDocumentCounts allTerms =
     foldl (\<lambda>counts terms.
              foldl (\<lambda>counts term. AList.update term (getOrZero counts term + 1) counts)
                    counts (removeDuplicates terms))
           [] allTerms"

definition calculateIDF :: "VectorStore \<Rightarrow> string list list \<Rightarrow> VectorStore" where
  "calculateIDF this allTerms =
     (let documentCount = length allTerms
      in this\<lparr>idfScores :=
           foldl (\<lambda>scores (term, docCount).
                    AList.update term (ln (real documentCount / real docCount)) scores)
                 (idfScores this) (termDocumentCounts allTerms)\<rparr>)"

definition termFreq :: "string list \<Rightarrow> (string \<times> nat) list" where
  "termFreq terms =
     foldl (\<lambda>freqs term. AList.update term (getOrZero freqs term + 1) freqs) [] terms"

definition calculateTFIDF :: "VectorStore \<Rightarrow> string list \<Rightarrow> TFIDFVector" where
  "calculateTFIDF this terms =
     (let totalTerms = length terms
      in foldl (\<lambda>vector (term, freq).
                  let tf = real freq / real totalTerms;
                      idf = getOrZero (idfScores this) term
                  in setProp vector term (tf * idf))
               [] (termFreq terms))"

definition cosineSimilarity :: "TFIDFVector \<Rightarrow> TFIDFVector \<Rightarrow> jsnum" where
  "cosineSimilarity vectorA vectorB =
     (let allKeys = removeDuplicates (objectKeys vectorA @ objectKeys vectorB);
          (dotProduct, magnitudeA, magnitudeB) =
             foldl (\<lambda>(dotProduct, magnitudeA, magnitudeB) key.
                      let valueA = toNumber (orZero (getProp vectorA key));
                          valueB = toNumber (orZero (getProp vectorB key))
                      in (jsAdd dotProduct (jsMul valueA valueB),
                          jsAdd magnitudeA (jsMul valueA valueA),
                          jsAdd magnitudeB (jsMul valueB valueB)))
                   (Num 0, Num 0, Num 0) allKeys;
          magnitude = jsMul (jsSqrt magnitudeA) (jsSqrt magnitudeB)
      in case magnitude of
           NaN \<Rightarrow> NaN
         | Num m \<Rightarrow>
             if m = 0 then Num 0
             else (case dotProduct of NaN \<Rightarrow> NaN | Num d \<Rightarrow> Num (d / m)))"

definition initializeStore :: "VectorStore \<Rightarrow> DocumentChunk list \<Rightarrow> VectorStore" where
  "initializeStore this documentChunks =
     (let allTerms = map (\<lambda>chunk. extractTerms (ctext chunk)) documentChunks;
          this1 = this\<lparr>vocabulary :=
                    foldl (\<lambda>vocab terms. foldl (\<lambda>vocab term. setAdd term vocab) vocab terms)
                          (vocabulary this) allTerms\<rparr>;
          this2 = calculateIDF this1 allTerms;
          this3 = this2\<lparr>chunks :=
                    map (\<lambda>(chunk, terms).
                           DocumentChunk.extend chunk
                             (ProcessedChunk.fields (calculateTFIDF this2 terms) (length terms)))
                        (zip documentChunks allTerms)\<rparr>
      in this3\<lparr>isInitialized := True\<rparr>)"

definition constructor :: "DocumentChunk list \<Rightarrow> VectorStore" where
  "constructor documentChunks = initializeStore newStore documentChunks"

text \<open>The loop of \<open>search\<close> that pairs every chunk with its similarity to the query.\<close>

definition similarities :: "VectorStore \<Rightarrow> string list \<Rightarrow> (ProcessedChunk \<times> jsnum) list" where
  "similarities this queryTerms =
     (let queryVector = calculateTFIDF this queryTerms
      in map (\<lambda>chunk. (chunk, cosineSimilarity queryVector (tfidfVector chunk))) (chunks this))"

text \<open>The callback of \<open>topResults.map\<close> calls \<open>extractKeySentences\<close>; what that throws
  ends the map.\<close>

fun searchResults ::
  "regExpEngine \<Rightarrow> string list \<Rightarrow> (ProcessedChunk \<times> jsnum) list
     \<Rightarrow> error + SearchResult list" where
  "searchResults regExp queryTerms [] = Inr []"
| "searchResults regExp queryTerms ((topChunk, topSimilarity) # topResults) =
     (case extractKeySentences regExp (ctext topChunk) queryTerms of
        Inl e \<Rightarrow> Inl e
      | Inr sentences \<Rightarrow>
          (case searchResults regExp queryTerms topResults of
             Inl e \<Rightarrow> Inl e
           | Inr results \<Rightarrow>
               Inr (\<lparr>chunk = topChunk, similarity = topSimilarity,
                     relevantSentences = sentences\<rparr> # results)))"

text \<open>\<open>search\<close> is asynchronous: a thrown error is the rejection of its promise, \<open>Inl\<close>
  here. The parameter \<open>topK\<close> is an integer (as the specification has it), \<open>None\<close> when
  the caller leaves it out.\<close>

definition search ::
  "regExpEngine \<Rightarrow> VectorStore \<Rightarrow> string \<Rightarrow> int option \<Rightarrow> error + SearchResult list" where
  "search regExp this query topKArg =
     (let topK = (case topKArg of None \<Rightarrow> 5 | Some k \<Rightarrow> k)
      in if \<not> isInitialized this then Inl NotInitialized
         else
           let queryTerms = extractTerms query;
               sorted = jsSort (\<lambda>a b. positive (jsSub (snd b) (snd a)))
                               (similarities this queryTerms);
               topResults = sliceTo topK sorted
           in searchResults regExp queryTerms topResults)"

text \<open>\<open>getStats\<close> has no \<open>throw\<close>; \<open>Math.round\<close> rounds a half upwards.\<close>

definition getStats :: "VectorStore \<Rightarrow> error + Stats" where
  "getStats this =
     (let averageChunkLength =
            (if length (chunks this) > 0
             then nat \<lfloor>real (foldl (\<lambda>sum chunk. sum + length (ctext chunk)) 0 (chunks this))
                          / real (length (chunks this)) + 1 / 2\<rfloor>
             else 0)
      in Inr \<lparr>chunkCount = length (chunks this),
              vocabularySize = length (vocabulary this),
              averageChunkLength = averageChunkLength,
              isInitializedStat = isInitialized this\<rparr>)"

section \<open>The quantities the specification speaks of\<close>

text \<open>The raw occurrence count of a term in a chunk, and the chunk's total raw term
  count: over the surviving tokens, before duplicates are removed.\<close>

definition rawOccurrenceCount :: "string \<Rightarrow> string \<Rightarrow> nat" where
  "rawOccurrenceCount term text = count_list (survivingTokens text) term"

definition totalRawTermCount :: "string \<Rightarrow> nat" where
  "totalRawTermCount text = length (survivingTokens text)"

text \<open>The document frequency of a term: the number of chunks whose terms contain it.\<close>

definition documentFrequency :: "DocumentChunk list \<Rightarrow> string \<Rightarrow> nat" where
  "documentFrequency documentChunks term =
     length (filter (\<lambda>chunk. term \<in> set (extractTerms (ctext chunk))) documentChunks)"

text \<open>The score of a sentence in the specification's words: the sum over the query terms
  of occurrence count times term length, and a bonus of 50 for each distinct query term found
  when more than one distinct query term is found.\<close>

definition specSentenceScore :: "string list \<Rightarrow> string \<Rightarrow> nat" where
  "specSentenceScore queryTermsLower sentenceLower =
     (let base = (\<Sum>term\<leftarrow>queryTermsLower. occurrences term sentenceLower * length term);
          distinctFound = card (set (filter (\<lambda>term. includesStr sentenceLower term) queryTermsLower))
      in if distinctFound > 1 then base + 50 * distinctFound else base)"

text \<open>The score that the loop over the query terms and the bonus give where every term is
  a literal pattern: the sum over the entries of the list, and the bonus counted over the
  entries found.\<close>

definition literalScore :: "string list \<Rightarrow> string \<Rightarrow> nat" where
  "literalScore queryTermsLower sentence =
     (\<Sum>term\<leftarrow>queryTermsLower. occurrences term (toLowerCase sentence) * length term) +
     (let found = length (filter (\<lambda>term. includesStr (toLowerCase sentence) term)
                                 queryTermsLower)
      in if 1 < found then 50 * found else 0)"

text \<open>The key sentences in the specification's words: the text split on sentence
  terminators, each sentence scored, the sentences of score above 0 sorted descending by
  score, and the top 3 taken.\<close>

definition specKeySentences :: "string \<Rightarrow> string list \<Rightarrow> string list" where
  "specKeySentences text queryTerms =
     (let sentences = filter (\<lambda>s. s \<noteq> []) (map trim (split matchTerminators text));
          queryTermsLower = map toLowerCase queryTerms;
          scored = filter (\<lambda>(sentence, score). 0 < score)
                     (map (\<lambda>sentence.
                             (sentence, specSentenceScore queryTermsLower (toLowerCase sentence)))
                          sentences)
      in map fst (take 3 (jsSort (\<lambda>a b. snd a < snd b) scored)))"

text \<open>A chunk as \<open>createChunk\<close> builds it for a text that starts the document, with no
  page breaks: the documents of the examples below are lists of such chunks.\<close>

definition chunkOf :: "nat \<Rightarrow> string \<Rightarrow> DocumentChunk" where
  "chunkOf index text = createChunk text index 0 (int (length text)) []"

text \<open>An engine that takes no term with syntax characters for a pattern. On literal
  terms every engine gives the same result; this one makes the examples closed terms.\<close>

definition noPatterns :: regExpEngine where
  "noPatterns term = Inl SyntaxError"

section \<open>Sorting, slicing and duplicate removal\<close>

lemma length_insertSorted: "length (insertSorted after x ys) = Suc (length ys)"
  by (induction ys) simp_all

lemma length_jsSort: "length (jsSort after xs) = length xs"
  by (induction xs) (simp_all add: jsSort_def length_insertSorted)

lemma set_insertSorted: "set (insertSorted after x ys) = insert x (set ys)"
  by (induction ys) auto

lemma set_jsSort: "set (jsSort after xs) = set xs"
  by (induction xs) (simp_all add: jsSort_def set_insertSorted)

lemma jsSort_Cons: "jsSort after (x # xs) = insertSorted after x (jsSort after xs)"
  by (simp add: jsSort_def)

text \<open>Where the comparison is that of a key, the result is in descending order of the key,
  and elements of equal key keep their order.\<close>

lemma sorted_insertSorted:
  fixes key :: "'a \<Rightarrow> 'b::linorder"
  assumes "\<forall>y\<in>set ys. after x y = (key x < key y)"
    and "sorted_wrt (\<lambda>a b. key b \<le> key a) ys"
  shows "sorted_wrt (\<lambda>a b. key b \<le> key a) (insertSorted after x ys)"
  using assms
proof (induction ys)
  case Nil
  then show ?case by simp
next
  case (Cons y ys)
  then show ?case
    by (auto simp: set_insertSorted)
qed

lemma sorted_jsSort:
  fixes key :: "'a \<Rightarrow> 'b::linorder"
  assumes "\<forall>x\<in>set xs. \<forall>y\<in>set xs. after x y = (key x < key y)"
  shows "sorted_wrt (\<lambda>a b. key b \<le> key a) (jsSort after xs)"
  using assms
proof (induction xs)
  case Nil
  then show ?case by (simp add: jsSort_def)
next
  case (Cons x xs)
  have "sorted_wrt (\<lambda>a b. key b \<le> key a) (jsSort after xs)"
    using Cons by simp
  moreover have "\<forall>y\<in>set (jsSort after xs). after x y = (key x < key y)"
    using Cons.prems by (simp add: set_jsSort)
  ultimately show ?case
    unfolding jsSort_Cons by (rule sorted_insertSorted[rotated])
qed

lemma stable_insertSorted:
  fixes key :: "'a \<Rightarrow> 'b::linorder"
  assumes "\<forall>y\<in>set ys. after x y = (key x < key y)"
  shows "filter (\<lambda>z. key z = k) (insertSorted after x ys) =
         filter (\<lambda>z. key z = k) (x # ys)"
  using assms by (induction ys) auto

lemma stable_jsSort:
  fixes key :: "'a \<Rightarrow> 'b::linorder"
  assumes "\<forall>x\<in>set xs. \<forall>y\<in>set xs. after x y = (key x < key y)"
  shows "filter (\<lambda>z. key z = k) (jsSort after xs) = filter (\<lambda>z. key z = k) xs"
  using assms
proof (induction xs)
  case Nil
  then show ?case by (simp add: jsSort_def)
next
  case (Cons x xs)
  have "\<forall>y\<in>set (jsSort after xs). after x y = (key x < key y)"
    using Cons.prems by (simp add: set_jsSort)
  then have "filter (\<lambda>z. key z = k) (jsSort after (x # xs)) =
             filter (\<lambda>z. key z = k) (x # jsSort after xs)"
    unfolding jsSort_Cons by (rule stable_insertSorted)
  then show ?case using Cons by simp
qed

lemma length_sliceTo: "0 \<le> k \<Longrightarrow> length (sliceTo k xs) = min (nat k) (length xs)"
  by (simp add: sliceTo_def)

lemma indexOf_nth:
  "x \<in> set xs \<Longrightarrow> indexOf xs x < length xs \<and> xs ! indexOf xs x = x"
  by (induction xs) (auto simp: indexOf_def)

lemma set_removeDuplicates: "set (removeDuplicates xs) = set xs"
proof
  show "set (removeDuplicates xs) \<subseteq> set xs"
    by (auto simp: removeDuplicates_def in_set_enumerate_eq) (metis nth_mem)
  show "set xs \<subseteq> set (removeDuplicates xs)"
  proof
    fix x assume x: "x \<in> set xs"
    let ?i = "indexOf xs x"
    have "?i < length xs" and "xs ! ?i = x"
      using indexOf_nth [OF x] by simp_all
    then have "(?i, x) \<in> set (enumerate 0 xs)"
      by (simp add: in_set_enumerate_eq)
    then show "x \<in> set (removeDuplicates xs)"
      unfolding removeDuplicates_def by force
  qed
qed

lemma distinct_removeDuplicates: "distinct (removeDuplicates xs)"
  unfolding removeDuplicates_def
proof (rule iffD2 [OF distinct_map], intro conjI)
  show "distinct (filter (\<lambda>(index, term). indexOf xs term = index) (enumerate 0 xs))"
    by (simp add: distinct_enumerate)
  show "inj_on snd (set (filter (\<lambda>(index, term). indexOf xs term = index) (enumerate 0 xs)))"
    by (auto simp: inj_on_def)
qed

section \<open>The terms of extractTerms are literal patterns\<close>

lemma wordChar_not_syntax: "isWordChar c \<Longrightarrow> \<not> syntaxCharacter c"
  by (auto simp: isWordChar_def syntaxCharacter_def Let_def)

lemma replaceAll_nonWord_chars:
  "c \<in> set (replaceAll matchNonWordNonSpace '' '' s) \<Longrightarrow> isWordChar c \<or> isSpace c"
proof (induction matchNonWordNonSpace "'' ''" s rule: replaceAll.induct)
  case 1
  then show ?case by simp
next
  case (2 d ds)
  show ?case
  proof (cases "\<not> isWordChar d \<and> \<not> isSpace d")
    case True
    then have m: "matchNonWordNonSpace (d # ds) = Some (Suc 0)"
      by (simp add: matchNonWordNonSpace_def)
    with 2 show ?thesis by (auto simp: isSpace_def)
  next
    case False
    then have m: "matchNonWordNonSpace (d # ds) = None"
      by (simp add: matchNonWordNonSpace_def)
    with 2 False show ?thesis by auto
  qed
qed

lemma replaceAll_spaces_chars:
  "c \<in> set (replaceAll matchSpaces '' '' s) \<Longrightarrow> c \<in> set s \<or> c = CHR '' ''"
proof (induction matchSpaces "'' ''" s rule: replaceAll.induct)
  case 1
  then show ?case by simp
next
  case (2 d ds)
  show ?case
  proof (cases "matchSpaces (d # ds)")
    case None
    with 2 show ?thesis by auto
  next
    case (Some n)
    show ?thesis
    proof (cases n)
      case 0
      with 2 Some show ?thesis by auto
    next
      case (Suc k)
      with 2 Some show ?thesis by (auto dest: in_set_dropD)
    qed
  qed
qed

lemma set_trim: "set (trim s) \<subseteq> set s"
  by (auto simp: trim_def dest!: set_dropWhileD)

lemma preprocessText_chars: "c \<in> set (preprocessText text) \<Longrightarrow> isWordChar c \<or> isSpace c"
proof -
  assume "c \<in> set (preprocessText text)"
  then have "c \<in> set (replaceAll matchSpaces '' ''
                        (replaceAll matchNonWordNonSpace '' '' (toLowerCase text)))"
    unfolding preprocessText_def using set_trim by blast
  then have "c \<in> set (replaceAll matchNonWordNonSpace '' '' (toLowerCase text)) \<or> c = CHR '' ''"
    by (rule replaceAll_spaces_chars)
  then show ?thesis
    using replaceAll_nonWord_chars by (auto simp: isSpace_def)
qed

lemma matchSpaces_Cons:
  "matchSpaces (d # ds) = (if isSpace d then Some (Suc (length (takeWhile isSpace ds))) else None)"
  by (simp add: matchSpaces_def)

text \<open>The pieces of a split hold no character at which the pattern matches.\<close>

lemma splitBy_pieces:
  "\<forall>d ds. P d \<longrightarrow> (\<exists>k. m (d # ds) = Some (Suc k)) \<Longrightarrow>
   \<forall>d ds. \<not> P d \<longrightarrow> m (d # ds) = None \<Longrightarrow>
   piece \<in> set (splitBy m acc s) \<Longrightarrow> c \<in> set piece \<Longrightarrow>
   (c \<in> set acc \<or> c \<in> set s) \<and> (\<not> P c \<or> c \<in> set acc)"
proof (induction m acc s rule: splitBy.induct)
  case (1 m acc)
  then show ?case by simp
next
  case (2 m acc d ds)
  note yes = "2.prems"(1) and no = "2.prems"(2)
  show ?case
  proof (cases "P d")
    case True
    then obtain k where m: "m (d # ds) = Some (Suc k)"
      using yes by blast
    from "2.prems"(3) m have "piece = rev acc \<or> piece \<in> set (splitBy m [] (drop k ds))"
      by simp
    then show ?thesis
    proof
      assume "piece = rev acc"
      with "2.prems"(4) show ?thesis by simp
    next
      assume "piece \<in> set (splitBy m [] (drop k ds))"
      with "2.IH" m yes no "2.prems"(4)
      have "(c \<in> set [] \<or> c \<in> set (drop k ds)) \<and> (\<not> P c \<or> c \<in> set [])"
        by blast
      then show ?thesis
        by (auto dest: in_set_dropD)
    qed
  next
    case False
    then have m: "m (d # ds) = None"
      using no by blast
    from "2.prems"(3) m have "piece \<in> set (splitBy m (d # acc) ds)" by simp
    with "2.IH" m yes no "2.prems"(4)
    have "(c \<in> set (d # acc) \<or> c \<in> set ds) \<and> (\<not> P c \<or> c \<in> set (d # acc))"
      by blast
    with False show ?thesis by auto
  qed
qed

lemma splitBy_spaces_pieces:
  "piece \<in> set (splitBy matchSpaces acc s) \<Longrightarrow> c \<in> set piece \<Longrightarrow>
   (c \<in> set acc \<or> c \<in> set s) \<and> (\<not> isSpace c \<or> c \<in> set acc)"
  by (rule splitBy_pieces [where P = isSpace and m = matchSpaces])
     (simp_all add: matchSpaces_Cons)

lemma survivingTokens_wordChars:
  "term \<in> set (survivingTokens text) \<Longrightarrow> c \<in> set term \<Longrightarrow> isWordChar c"
proof -
  assume "term \<in> set (survivingTokens text)" and c: "c \<in> set term"
  then have "term \<in> set (splitBy matchSpaces [] (preprocessText text))"
    by (simp add: survivingTokens_def split_def)
  from splitBy_spaces_pieces [OF this c]
  have "c \<in> set (preprocessText text)" and "\<not> isSpace c"
    by simp_all
  then show ?thesis using preprocessText_chars by blast
qed

lemma extractTerms_literal: "list_all literalPattern (extractTerms query)"
  unfolding list_all_iff literalPattern_def filter_empty_conv extractTerms_def
    set_removeDuplicates
  using survivingTokens_wordChars wordChar_not_syntax by blast

section \<open>The inverse document frequencies of a constructed store\<close>

lemma getOrZero_update:
  "getOrZero (AList.update k v al) t = (if t = k then v else getOrZero al t)"
  by (simp add: getOrZero_def update_conv')

lemma count_terms_map_of:
  "distinct ts \<Longrightarrow>
   map_of (foldl (\<lambda>counts term. AList.update term (Suc (getOrZero counts term)) counts)
                 counts ts) t =
     (if t \<in> set ts then Some (Suc (getOrZero counts t)) else map_of counts t)"
proof (induction ts arbitrary: counts)
  case Nil
  then show ?case by simp
next
  case (Cons a ts)
  then show ?case
    by (auto simp: update_conv' getOrZero_update getOrZero_def)
qed

lemma count_terms_distinct:
  "distinct (map fst counts) \<Longrightarrow>
   distinct (map fst (foldl (\<lambda>counts term. AList.update term (f counts term) counts) counts ts))"
  by (induction ts arbitrary: counts) (simp_all add: distinct_update)

lemma termDocumentCounts_aux:
  "map_of (foldl (\<lambda>counts terms.
              foldl (\<lambda>counts term. AList.update term (getOrZero counts term + 1) counts)
                    counts (removeDuplicates terms)) counts allTerms) t =
   (if length (filter (\<lambda>terms. t \<in> set terms) allTerms) = 0 then map_of counts t
    else Some (getOrZero counts t + length (filter (\<lambda>terms. t \<in> set terms) allTerms)))"
proof (induction allTerms arbitrary: counts)
  case Nil
  then show ?case by simp
next
  case (Cons terms allTerms)
  let ?df = "\<lambda>allTerms. length (filter (\<lambda>terms. t \<in> set terms) allTerms)"
  let ?c1 = "foldl (\<lambda>counts term. AList.update term (getOrZero counts term + 1) counts)
                    counts (removeDuplicates terms)"
  have c1: "map_of ?c1 t =
      (if t \<in> set terms then Some (Suc (getOrZero counts t)) else map_of counts t)"
    by (simp add: count_terms_map_of [OF distinct_removeDuplicates] set_removeDuplicates)
  then have g1: "getOrZero ?c1 t =
      (if t \<in> set terms then Suc (getOrZero counts t) else getOrZero counts t)"
    by (simp add: getOrZero_def)
  have d: "?df (terms # allTerms) = (if t \<in> set terms then Suc (?df allTerms) else ?df allTerms)"
    by simp
  have "map_of (foldl (\<lambda>counts terms.
              foldl (\<lambda>counts term. AList.update term (getOrZero counts term + 1) counts)
                    counts (removeDuplicates terms)) counts (terms # allTerms)) t =
        (if ?df allTerms = 0 then map_of ?c1 t else Some (getOrZero ?c1 t + ?df allTerms))"
    using Cons.IH [of ?c1] by simp
  also have "\<dots> = (if ?df (terms # allTerms) = 0 then map_of counts t
                   else Some (getOrZero counts t + ?df (terms # allTerms)))"
    unfolding c1 g1 d by simp
  finally show ?case .
qed

lemma termDocumentCounts_distinct_aux:
  "distinct (map fst counts) \<Longrightarrow>
   distinct (map fst (foldl (\<lambda>counts terms.
              foldl (\<lambda>counts term. AList.update term (getOrZero counts term + 1) counts)
                    counts (removeDuplicates terms)) counts allTerms))"
  by (induction allTerms arbitrary: counts) (simp_all add: count_terms_distinct)

lemma map_of_termDocumentCounts:
  "map_of (termDocumentCounts allTerms) t =
     (if length (filter (\<lambda>terms. t \<in> set terms) allTerms) = 0 then None
      else Some (length (filter (\<lambda>terms. t \<in> set terms) allTerms)))"
  unfolding termDocumentCounts_def using termDocumentCounts_aux [of "[]" allTerms t]
  by (simp add: getOrZero_def)

lemma distinct_termDocumentCounts: "distinct (map fst (termDocumentCounts allTerms))"
  unfolding termDocumentCounts_def by (rule termDocumentCounts_distinct_aux) simp

lemma idf_fold_map_of:
  "distinct (map fst al) \<Longrightarrow>
   map_of (foldl (\<lambda>scores (term, docCount). AList.update term (f docCount) scores) scores al) t =
     (case map_of al t of Some d \<Rightarrow> Some (f d) | None \<Rightarrow> map_of scores t)"
proof (induction al arbitrary: scores)
  case Nil
  then show ?case by simp
next
  case (Cons p al)
  obtain k d where p: "p = (k, d)" by (cases p)
  from Cons.prems p have "k \<notin> fst ` set al" by simp
  then have "map_of al k = None" by (simp add: map_of_eq_None_iff)
  with Cons p show ?case
    by (auto simp: update_conv' split: option.splits)
qed

lemma idfScores_constructor:
  "map_of (idfScores (constructor documentChunks)) t =
     (if documentFrequency documentChunks t = 0 then None
      else Some (ln (real (length documentChunks) / real (documentFrequency documentChunks t))))"
proof -
  let ?allTerms = "map (\<lambda>chunk. extractTerms (ctext chunk)) documentChunks"
  have df: "length (filter (\<lambda>terms. t \<in> set terms) ?allTerms) =
            documentFrequency documentChunks t"
    by (simp add: documentFrequency_def filter_map comp_def)
  have "map_of (idfScores (constructor documentChunks)) t =
        (case map_of (termDocumentCounts ?allTerms) t of
           Some d \<Rightarrow> Some (ln (real (length documentChunks) / real d))
         | None \<Rightarrow> None)"
    using idf_fold_map_of [OF distinct_termDocumentCounts,
        of "\<lambda>d. ln (real (length documentChunks) / real d)" "[]" ?allTerms t]
    by (simp add: constructor_def initializeStore_def calculateIDF_def Let_def newStore_def
          split: option.splits)
  then show ?thesis
    unfolding map_of_termDocumentCounts df by simp
qed

section \<open>Key sentences\<close>

text \<open>Where every query term is a literal pattern nothing is thrown, and the scores are
  \<open>literalScore\<close>; where moreover no term is repeated, the result is the one the
  specification describes.\<close>

lemma scoreTerms_literal:
  "list_all literalPattern qs \<Longrightarrow>
   scoreTerms regExp sentenceLower score qs =
     Inr (score + (\<Sum>term\<leftarrow>qs. occurrences term sentenceLower * length term))"
  by (induction qs arbitrary: score) (simp_all add: globalMatchCount_def)

lemma sentenceScore_literal:
  "list_all literalPattern qs \<Longrightarrow> sentenceScore regExp qs sentence = Inr (literalScore qs sentence)"
  by (simp add: sentenceScore_def scoreTerms_literal literalScore_def Let_def)

lemma scoreSentences_literal:
  "list_all literalPattern qs \<Longrightarrow>
   scoreSentences regExp qs scored sentences =
     Inr (scored @ filter (\<lambda>(sentence, score). 0 < score)
                     (map (\<lambda>sentence. (sentence, literalScore qs sentence)) sentences))"
  by (induction sentences arbitrary: scored) (simp_all add: sentenceScore_literal)

lemma extractKeySentences_literal:
  "list_all literalPattern (map toLowerCase queryTerms) \<Longrightarrow>
   extractKeySentences regExp text queryTerms =
     Inr (map fst (take 3 (jsSort (\<lambda>a b. snd a < snd b)
       (filter (\<lambda>(sentence, score). 0 < score)
          (map (\<lambda>sentence. (sentence, literalScore (map toLowerCase queryTerms) sentence))
             (filter (\<lambda>s. s \<noteq> []) (map trim (split matchTerminators text))))))))"
  by (simp add: extractKeySentences_def scoreSentences_literal sliceTo_def Let_def)

lemma literalScore_distinct:
  assumes "distinct qs"
  shows "literalScore qs sentence = specSentenceScore qs (toLowerCase sentence)"
proof -
  have "card (set (filter (\<lambda>term. includesStr (toLowerCase sentence) term) qs)) =
        length (filter (\<lambda>term. includesStr (toLowerCase sentence) term) qs)"
    using assms by (intro distinct_card distinct_filter)
  then show ?thesis
    unfolding literalScore_def specSentenceScore_def Let_def by simp
qed

lemma extractKeySentences_refines_spec:
  assumes "list_all literalPattern (map toLowerCase queryTerms)"
    and "distinct (map toLowerCase queryTerms)"
  shows "extractKeySentences regExp text queryTerms = Inr (specKeySentences text queryTerms)"
  unfolding extractKeySentences_literal [OF assms(1)] specKeySentences_def Let_def
  by (simp add: literalScore_distinct [OF assms(2)])

lemma syntaxCharacter_lowerChar: "syntaxCharacter (lowerChar c) = syntaxCharacter c"
proof (cases "(65 \<le> (of_char c :: nat) \<and> (of_char c :: nat) \<le> 90) \<or>
              (192 \<le> (of_char c :: nat) \<and> (of_char c :: nat) \<le> 222 \<and> (of_char c :: nat) \<noteq> 215)")
  case True
  then have "(of_char c :: nat) + 32 < 2 ^ 8" by auto
  then have tb: "take_bit 8 ((of_char c :: nat) + 32) = of_char c + 32"
    by (rule take_bit_nat_eq_self)
  have "\<not> syntaxCharacter c"
    using True by (auto simp: syntaxCharacter_def)
  moreover have "\<not> syntaxCharacter (char_of ((of_char c :: nat) + 32))"
    using True by (auto simp: syntaxCharacter_def char_of_eq_iff tb)
  ultimately show ?thesis
    using True by (simp add: lowerChar_def Let_def)
next
  case False
  then have "lowerChar c = c" by (auto simp: lowerChar_def Let_def)
  then show ?thesis by simp
qed

lemma literalPattern_toLowerCase: "literalPattern (toLowerCase term) = literalPattern term"
  by (simp add: literalPattern_def toLowerCase_def filter_map comp_def syntaxCharacter_lowerChar)

lemma lowerChar_idem: "lowerChar (lowerChar c) = lowerChar c"
  by (auto simp: lowerChar_def Let_def)

lemma set_replaceAll:
  "c \<in> set (replaceAll m rep s) \<Longrightarrow> c \<in> set s \<or> c \<in> set rep"
proof (induction m rep s rule: replaceAll.induct)
  case (1 m rep)
  then show ?case by simp
next
  case (2 m rep d ds)
  show ?case
  proof (cases "m (d # ds)")
    case None
    with 2 show ?thesis by auto
  next
    case (Some n)
    show ?thesis
    proof (cases n)
      case 0
      with 2 Some show ?thesis by auto
    next
      case (Suc k)
      with 2 Some show ?thesis by (auto dest: in_set_dropD)
    qed
  qed
qed

lemma survivingTokens_lower:
  assumes "term \<in> set (survivingTokens text)" and c: "c \<in> set term"
  shows "lowerChar c = c"
proof -
  from assms have "term \<in> set (splitBy matchSpaces [] (preprocessText text))"
    by (simp add: survivingTokens_def split_def)
  from splitBy_spaces_pieces [OF this c]
  have "c \<in> set (preprocessText text)" and ns: "\<not> isSpace c"
    by simp_all
  then have "c \<in> set (replaceAll matchSpaces '' ''
                        (replaceAll matchNonWordNonSpace '' '' (toLowerCase text)))"
    unfolding preprocessText_def using set_trim by blast
  then have "c \<in> set (toLowerCase text) \<or> c = CHR '' ''"
    by (auto dest!: set_replaceAll)
  with ns have "c \<in> set (toLowerCase text)"
    by (auto simp: isSpace_def)
  then obtain d where "c = lowerChar d"
    by (auto simp: toLowerCase_def)
  then show ?thesis by (simp add: lowerChar_idem)
qed

lemma extractTerms_toLowerCase: "map toLowerCase (extractTerms query) = extractTerms query"
proof -
  have "toLowerCase t = t" if "t \<in> set (extractTerms query)" for t
  proof -
    from that have "t \<in> set (survivingTokens query)"
      by (simp add: extractTerms_def set_removeDuplicates)
    then have "\<forall>c\<in>set t. lowerChar c = c"
      using survivingTokens_lower by blast
    then show ?thesis
      unfolding toLowerCase_def by (simp add: map_idI)
  qed
  then show ?thesis by (simp add: map_idI)
qed

lemma distinct_extractTerms: "distinct (extractTerms query)"
  by (simp add: extractTerms_def distinct_removeDuplicates)

lemma search_key_sentences_refine_spec:
  "extractKeySentences regExp text (extractTerms query) =
     Inr (specKeySentences text (extractTerms query))"
  by (rule extractKeySentences_refines_spec)
     (simp_all add: extractTerms_toLowerCase extractTerms_literal distinct_extractTerms)

section \<open>Search on an initialized store\<close>

lemma searchResults_literal:
  assumes "list_all literalPattern (map toLowerCase queryTerms)"
  shows "\<exists>results. searchResults regExp queryTerms topResults = Inr results \<and>
           map (\<lambda>r. (chunk r, similarity r)) results = topResults"
proof (induction topResults)
  case Nil
  then show ?case by simp
next
  case (Cons p topResults)
  obtain c sim where p: "p = (c, sim)" by (cases p)
  from Cons obtain results where
    "searchResults regExp queryTerms topResults = Inr results"
    "map (\<lambda>r. (chunk r, similarity r)) results = topResults"
    by blast
  then show ?case
    by (simp add: p extractKeySentences_literal [OF assms])
qed

lemma isInitialized_constructor: "isInitialized (constructor documentChunks)"
  by (simp add: constructor_def initializeStore_def Let_def)

lemma search_initialized:
  "isInitialized this \<Longrightarrow>
   \<exists>results. search regExp this query topK = Inr results \<and>
     map (\<lambda>r. (chunk r, similarity r)) results =
       sliceTo (case topK of None \<Rightarrow> 5 | Some k \<Rightarrow> k)
         (jsSort (\<lambda>a b. positive (jsSub (snd b) (snd a)))
            (similarities this (extractTerms query)))"
  using searchResults_literal [of "extractTerms query" regExp]
  by (simp add: search_def Let_def extractTerms_toLowerCase extractTerms_literal)

lemma length_similarities: "length (similarities this queryTerms) = length (chunks this)"
  by (simp add: similarities_def Let_def)

lemma search_initialized_length:
  assumes "isInitialized this"
  shows "\<exists>results. search regExp this query topK = Inr results \<and>
     length results =
       length (sliceTo (case topK of None \<Rightarrow> 5 | Some k \<Rightarrow> k) (chunks this))"
proof -
  from search_initialized [OF assms, of regExp query topK] obtain results where
    r: "search regExp this query topK = Inr results"
    and m: "map (\<lambda>r. (chunk r, similarity r)) results =
       sliceTo (case topK of None \<Rightarrow> 5 | Some k \<Rightarrow> k)
         (jsSort (\<lambda>a b. positive (jsSub (snd b) (snd a)))
            (similarities this (extractTerms query)))"
    by blast
  from m have "length results =
       length (sliceTo (case topK of None \<Rightarrow> 5 | Some k \<Rightarrow> k)
         (jsSort (\<lambda>a b. positive (jsSub (snd b) (snd a)))
            (similarities this (extractTerms query))))"
    by (metis length_map)
  then have "length results =
       length (sliceTo (case topK of None \<Rightarrow> 5 | Some k \<Rightarrow> k) (chunks this))"
    by (simp add: sliceTo_def length_jsSort length_similarities)
  with r show ?thesis by blast
qed

section \<open>Evaluation on concrete documents\<close>

lemma extractTerms_examples:
  "extractTerms ''constructor pattern'' = [''constructor'', ''pattern'']"
  "extractTerms ''constructor stuff'' = [''constructor'', ''stuff'']"
  "extractTerms ''other words'' = [''other'', ''words'']"
  "extractTerms ''pattern'' = [''pattern'']"
  "extractTerms ''the and of'' = []"
  "extractTerms ''cat cat dog'' = [''cat'', ''dog'']"
  "extractTerms ''bird fish'' = [''bird'', ''fish'']"
  "extractTerms ''cats purr'' = [''cats'', ''purr'']"
  "extractTerms ''cats bark'' = [''cats'', ''bark'']"
  by code_simp+

lemmas store_defs = constructor_def initializeStore_def newStore_def calculateIDF_def
  termDocumentCounts_def removeDuplicates_def indexOf_def getOrZero_def calculateTFIDF_def
  termFreq_def setProp_def setAdd_def DocumentChunk.extend_def ProcessedChunk.fields_def
  chunkOf_def createChunk_def Let_def

lemmas search_defs = search_def similarities_def cosineSimilarity_def objectKeys_def getProp_def
  objectPrototypeProps_def jsSort_def sliceTo_def

text \<open>Evaluation of the chunker on texts with long runs of one character.\<close>

lemma splitBy_skip:
  "\<forall>x\<in>set xs. \<forall>rest. m (x # rest) = None \<Longrightarrow>
   splitBy m acc (xs @ ys) = splitBy m (rev xs @ acc) ys"
  by (induction xs arbitrary: acc) simp_all

lemma splitBy_skip_all:
  "\<forall>x\<in>set xs. \<forall>rest. m (x # rest) = None \<Longrightarrow> splitBy m acc xs = [rev acc @ xs]"
  using splitBy_skip [of xs m acc "[]"] by simp

lemma dropWhile_replicate_append:
  "\<not> P x \<Longrightarrow> 0 < n \<Longrightarrow> dropWhile P (replicate n x @ ys) = replicate n x @ ys"
  by (cases n) simp_all

lemma paragraphPattern_other: "x \<noteq> CHR 0x0A \<Longrightarrow> paragraphPattern (x # rest) = None"
  by (simp add: paragraphPattern_def)

lemma sentenceEndPattern_other: "\<not> isPunct x \<Longrightarrow> sentenceEndPattern (x # rest) = None"
  by (simp add: sentenceEndPattern_def)

lemmas chunker_defs = chunkText_def finalChunk_def processParagraph_def addParagraph_def
  breakAtSentence_def findGoodBreakPoint_def split_def createChunk_def substring_def
  substringFrom_def trim_def minSize_def maxSize_def targetSize_def overlapSize_def Let_def

lemmas eval_simps = splitBy_skip splitBy_skip_all paragraphPattern_other sentenceEndPattern_other
  dropWhile_replicate_append paragraphPattern_def sentenceEndPattern_def isSpace_def isPunct_def

section \<open>Vectors whose keys are not property names of Object.prototype\<close>

text \<open>
  Where no key of either vector is a property name of \<open>Object.prototype\<close>, every read
  \<open>vector[key] || 0\<close> is a number, the loop of \<open>cosineSimilarity\<close> computes the three sums,
  and the Cauchy-Schwarz inequality bounds the quotient.
\<close>

lemma cauchy_step:
  fixes d a b A B :: real
  assumes "d\<^sup>2 \<le> A * B" "0 \<le> A" "0 \<le> B"
  shows "(d + a * b)\<^sup>2 \<le> (A + a * a) * (B + b * b)"
proof -
  have "(2 * d * a * b)\<^sup>2 = 4 * d\<^sup>2 * (a\<^sup>2 * b\<^sup>2)"
    by (simp add: power2_eq_square)
  also have "\<dots> \<le> 4 * (A * B) * (a\<^sup>2 * b\<^sup>2)"
    using assms(1) by (intro mult_left_mono mult_right_mono) simp_all
  also have "\<dots> \<le> (A * b\<^sup>2 + B * a\<^sup>2)\<^sup>2"
  proof -
    have "0 \<le> (A * b\<^sup>2 - B * a\<^sup>2)\<^sup>2" by simp
    then show ?thesis by (simp add: power2_eq_square algebra_simps)
  qed
  finally have "(2 * d * a * b)\<^sup>2 \<le> (A * b\<^sup>2 + B * a\<^sup>2)\<^sup>2" .
  moreover have "0 \<le> A * b\<^sup>2 + B * a\<^sup>2"
    using assms(2,3) by simp
  ultimately have "2 * d * a * b \<le> A * b\<^sup>2 + B * a\<^sup>2"
    using power2_le_imp_le by blast
  then show ?thesis
    using assms(1) by (simp add: power2_eq_square algebra_simps)
qed

lemma cauchy_schwarz_list:
  fixes f g :: "'a \<Rightarrow> real"
  shows "(\<Sum>x\<leftarrow>xs. f x * g x)\<^sup>2 \<le> (\<Sum>x\<leftarrow>xs. f x * f x) * (\<Sum>x\<leftarrow>xs. g x * g x)"
proof (induction xs)
  case Nil
  then show ?case by simp
next
  case (Cons x xs)
  have "0 \<le> (\<Sum>x\<leftarrow>xs. f x * f x)" "0 \<le> (\<Sum>x\<leftarrow>xs. g x * g x)"
    by (rule sum_list_nonneg, auto)+
  from cauchy_step [OF Cons.IH this, of "f x" "g x"] show ?case
    by (simp add: algebra_simps)
qed


lemma read_own_or_plain:
  "key \<notin> set objectPrototypeProps \<Longrightarrow>
   toNumber (orZero (getProp vector key)) = Num (getOrZero vector key)"
  by (simp add: getProp_def getOrZero_def split: option.splits)

lemma cosine_fold:
  assumes "\<forall>key\<in>set keys. key \<notin> set objectPrototypeProps"
  shows "foldl (\<lambda>(dotProduct, magnitudeA, magnitudeB) key.
                  (jsAdd dotProduct
                     (jsMul (toNumber (orZero (getProp vectorA key)))
                            (toNumber (orZero (getProp vectorB key)))),
                   jsAdd magnitudeA
                     (jsMul (toNumber (orZero (getProp vectorA key)))
                            (toNumber (orZero (getProp vectorA key)))),
                   jsAdd magnitudeB
                     (jsMul (toNumber (orZero (getProp vectorB key)))
                            (toNumber (orZero (getProp vectorB key))))))
               (Num d, Num a, Num b) keys =
         (Num (d + (\<Sum>key\<leftarrow>keys. getOrZero vectorA key * getOrZero vectorB key)),
          Num (a + (\<Sum>key\<leftarrow>keys. getOrZero vectorA key * getOrZero vectorA key)),
          Num (b + (\<Sum>key\<leftarrow>keys. getOrZero vectorB key * getOrZero vectorB key)))"
  using assms
  by (induction keys arbitrary: d a b) (simp_all add: read_own_or_plain Let_def algebra_simps)

lemma getOrZero_nonneg:
  "\<forall>v\<in>snd ` set vector. (0::real) \<le> v \<Longrightarrow> 0 \<le> getOrZero vector key"
  by (auto simp: getOrZero_def split: option.splits dest!: map_of_SomeD)

lemma cosineSimilarity_bounds:
  assumes keysA: "\<forall>key\<in>set (objectKeys vectorA). key \<notin> set objectPrototypeProps"
    and keysB: "\<forall>key\<in>set (objectKeys vectorB). key \<notin> set objectPrototypeProps"
    and posA: "\<forall>v\<in>snd ` set vectorA. 0 \<le> v"
    and posB: "\<forall>v\<in>snd ` set vectorB. 0 \<le> v"
  shows "\<exists>r. cosineSimilarity vectorA vectorB = Num r \<and> 0 \<le> r \<and> r \<le> 1"
proof -
  let ?keys = "removeDuplicates (objectKeys vectorA @ objectKeys vectorB)"
  let ?d = "\<Sum>key\<leftarrow>?keys. getOrZero vectorA key * getOrZero vectorB key"
  let ?a = "\<Sum>key\<leftarrow>?keys. getOrZero vectorA key * getOrZero vectorA key"
  let ?b = "\<Sum>key\<leftarrow>?keys. getOrZero vectorB key * getOrZero vectorB key"
  have keys: "\<forall>key\<in>set ?keys. key \<notin> set objectPrototypeProps"
    using keysA keysB by (auto simp: set_removeDuplicates)
  have a: "0 \<le> ?a" and b: "0 \<le> ?b"
    by (rule sum_list_nonneg, auto)+
  have d: "0 \<le> ?d"
    by (rule sum_list_nonneg) (auto intro!: mult_nonneg_nonneg getOrZero_nonneg posA posB)
  have cs: "?d\<^sup>2 \<le> ?a * ?b"
    by (rule cauchy_schwarz_list)
  have le: "?d \<le> sqrt ?a * sqrt ?b"
  proof -
    have "?d \<le> sqrt (?a * ?b)" by (rule real_le_rsqrt [OF cs])
    then show ?thesis by (simp add: real_sqrt_mult)
  qed
  have eq: "cosineSimilarity vectorA vectorB =
            (if sqrt ?a * sqrt ?b = 0 then Num 0 else Num (?d / (sqrt ?a * sqrt ?b)))"
    unfolding cosineSimilarity_def Let_def cosine_fold [OF keys, where d = 0 and a = 0 and b = 0]
    using a b by simp
  show ?thesis
  proof (cases "sqrt ?a * sqrt ?b = 0")
    case True
    then show ?thesis using eq by simp
  next
    case False
    then have pos: "0 < sqrt ?a * sqrt ?b"
      using a b by (simp add: less_le)
    then have "0 \<le> ?d / (sqrt ?a * sqrt ?b)" "?d / (sqrt ?a * sqrt ?b) \<le> 1"
      using d le by simp_all
    then show ?thesis using eq False by simp
  qed
qed

section \<open>The vectors of a constructed store\<close>

lemma in_set_update:
  "p \<in> set (AList.update k v al) \<Longrightarrow> p = (k, v) \<or> p \<in> set al"
  by (induction al) (auto split: if_splits)

lemma in_set_setProp:
  "p \<in> set (setProp vector k v) \<Longrightarrow> p = (k, v) \<or> p \<in> set vector"
  by (auto simp: setProp_def dest: in_set_update split: if_splits)

lemma termFreq_keys_aux:
  "p \<in> set (foldl (\<lambda>freqs term. AList.update term (getOrZero freqs term + 1) freqs) freqs terms)
   \<Longrightarrow> fst p \<in> set terms \<or> p \<in> set freqs"
proof (induction terms arbitrary: freqs)
  case Nil
  then show ?case by simp
next
  case (Cons a terms)
  from Cons.prems
  have "p \<in> set (foldl (\<lambda>freqs term. AList.update term (getOrZero freqs term + 1) freqs)
                       (AList.update a (getOrZero freqs a + 1) freqs) terms)"
    by simp
  from Cons.IH [OF this] show ?case
    by (auto dest!: in_set_update)
qed

lemma termFreq_keys: "p \<in> set (termFreq terms) \<Longrightarrow> fst p \<in> set terms"
  using termFreq_keys_aux [of p "[]" terms] by (simp add: termFreq_def)

lemma tfidf_fold_entries:
  "p \<in> set (foldl (\<lambda>vector (term, freq). setProp vector term (g term freq)) vector al)
   \<Longrightarrow> (\<exists>term freq. (term, freq) \<in> set al \<and> p = (term, g term freq)) \<or> p \<in> set vector"
proof (induction al arbitrary: vector)
  case Nil
  then show ?case by simp
next
  case (Cons e al)
  obtain t f where e: "e = (t, f)" by (cases e)
  from Cons.prems e
  have "p \<in> set (foldl (\<lambda>vector (term, freq). setProp vector term (g term freq))
                       (setProp vector t (g t f)) al)"
    by simp
  from Cons.IH [OF this] show ?case
    using e by (auto dest!: in_set_setProp)
qed

lemma calculateTFIDF_entries:
  assumes "(key, v) \<in> set (calculateTFIDF this terms)"
  shows "key \<in> set terms \<and>
         (\<exists>freq. v = real freq / real (length terms) * getOrZero (idfScores this) key)"
proof -
  from assms tfidf_fold_entries
    [of "(key, v)" "\<lambda>term freq. real freq / real (length terms) * getOrZero (idfScores this) term"
        "[]" "termFreq terms"]
  obtain freq where "(key, freq) \<in> set (termFreq terms)"
    and "v = real freq / real (length terms) * getOrZero (idfScores this) key"
    by (auto simp: calculateTFIDF_def Let_def)
  then show ?thesis using termFreq_keys by fastforce
qed

lemma idf_nonneg_constructor:
  "0 \<le> getOrZero (idfScores (constructor documentChunks)) term"
proof (cases "documentFrequency documentChunks term = 0")
  case True
  then show ?thesis by (simp add: getOrZero_def idfScores_constructor)
next
  case False
  have "documentFrequency documentChunks term \<le> length documentChunks"
    by (simp add: documentFrequency_def)
  with False
  have "1 \<le> real (length documentChunks) / real (documentFrequency documentChunks term)"
    by simp
  then show ?thesis
    using False by (simp add: getOrZero_def idfScores_constructor)
qed

lemma calculateTFIDF_constructor_nonneg:
  "\<forall>v\<in>snd ` set (calculateTFIDF (constructor documentChunks) terms). 0 \<le> v"
  using calculateTFIDF_entries idf_nonneg_constructor by fastforce

lemma calculateTFIDF_keys:
  "set (objectKeys (calculateTFIDF this terms)) \<subseteq> set terms"
  using calculateTFIDF_entries by (fastforce simp: objectKeys_def)

lemma chunks_constructor:
  "chunks (constructor documentChunks) =
     map (\<lambda>chunk. DocumentChunk.extend chunk
            (ProcessedChunk.fields
               (calculateTFIDF (constructor documentChunks) (extractTerms (ctext chunk)))
               (length (extractTerms (ctext chunk)))))
         documentChunks"
proof -
  have same: "calculateTFIDF (this\<lparr>chunks := cs, isInitialized := b\<rparr>) terms = calculateTFIDF this terms"
    for this cs b terms
    by (simp add: calculateTFIDF_def)
  show ?thesis
    by (simp add: constructor_def initializeStore_def Let_def same zip_map2 map_zip_map2
          zip_same_conv_map comp_def calculateTFIDF_def)
qed

lemma cosineSimilarity_plain:
  assumes keysA: "\<forall>key\<in>set (objectKeys vectorA). key \<notin> set objectPrototypeProps"
    and keysB: "\<forall>key\<in>set (objectKeys vectorB). key \<notin> set objectPrototypeProps"
  shows "cosineSimilarity vectorA vectorB =
     (let keys = removeDuplicates (objectKeys vectorA @ objectKeys vectorB);
          d = (\<Sum>key\<leftarrow>keys. getOrZero vectorA key * getOrZero vectorB key);
          a = (\<Sum>key\<leftarrow>keys. getOrZero vectorA key * getOrZero vectorA key);
          b = (\<Sum>key\<leftarrow>keys. getOrZero vectorB key * getOrZero vectorB key)
      in if sqrt a * sqrt b = 0 then Num 0 else Num (d / (sqrt a * sqrt b)))"
proof -
  let ?keys = "removeDuplicates (objectKeys vectorA @ objectKeys vectorB)"
  let ?a = "\<Sum>key\<leftarrow>?keys. getOrZero vectorA key * getOrZero vectorA key"
  let ?b = "\<Sum>key\<leftarrow>?keys. getOrZero vectorB key * getOrZero vectorB key"
  have keys: "\<forall>key\<in>set ?keys. key \<notin> set objectPrototypeProps"
    using keysA keysB by (auto simp: set_removeDuplicates)
  have a: "0 \<le> ?a" and b: "0 \<le> ?b"
    by (rule sum_list_nonneg, auto)+
  show ?thesis
    unfolding cosineSimilarity_def Let_def cosine_fold [OF keys, where d = 0 and a = 0 and b = 0]
    using a b by simp
qed

lemma cosineSimilarity_zero_vector:
  assumes keysA: "\<forall>key\<in>set (objectKeys vectorA). key \<notin> set objectPrototypeProps"
    and keysB: "\<forall>key\<in>set (objectKeys vectorB). key \<notin> set objectPrototypeProps"
    and zero: "\<forall>v\<in>snd ` set vectorA. v = 0"
  shows "cosineSimilarity vectorA vectorB = Num 0"
    and "cosineSimilarity vectorB vectorA = Num 0"
proof -
  have "getOrZero vectorA key = 0" for key
    using zero by (auto simp: getOrZero_def split: option.splits dest!: map_of_SomeD)
  then show "cosineSimilarity vectorA vectorB = Num 0"
    and "cosineSimilarity vectorB vectorA = Num 0"
    by (simp_all add: cosineSimilarity_plain [OF keysA keysB]
          cosineSimilarity_plain [OF keysB keysA] Let_def)
qed

lemma similarities_bounds:
  assumes chunkTerms: "\<forall>chunk\<in>set documentChunks.
        \<forall>t\<in>set (extractTerms (ctext chunk)). t \<notin> set objectPrototypeProps"
    and queryTerms: "\<forall>t\<in>set queryTerms. t \<notin> set objectPrototypeProps"
  shows "\<forall>p\<in>set (similarities (constructor documentChunks) queryTerms).
           \<exists>r. snd p = Num r \<and> 0 \<le> r \<and> r \<le> 1"
proof
  fix p assume "p \<in> set (similarities (constructor documentChunks) queryTerms)"
  then obtain chunk where chunk: "chunk \<in> set documentChunks"
    and p: "snd p = cosineSimilarity (calculateTFIDF (constructor documentChunks) queryTerms)
              (calculateTFIDF (constructor documentChunks) (extractTerms (ctext chunk)))"
    by (auto simp: similarities_def Let_def chunks_constructor
          DocumentChunk.extend_def ProcessedChunk.fields_def)
  show "\<exists>r. snd p = Num r \<and> 0 \<le> r \<and> r \<le> 1"
    unfolding p
  proof (rule cosineSimilarity_bounds)
    show "\<forall>key\<in>set (objectKeys (calculateTFIDF (constructor documentChunks) queryTerms)).
            key \<notin> set objectPrototypeProps"
      using queryTerms calculateTFIDF_keys by blast
    show "\<forall>key\<in>set (objectKeys (calculateTFIDF (constructor documentChunks)
                                   (extractTerms (ctext chunk)))).
            key \<notin> set objectPrototypeProps"
      using chunkTerms chunk calculateTFIDF_keys by blast
  qed (rule calculateTFIDF_constructor_nonneg)+
qed

lemma search_sorted_stable:
  assumes "\<forall>p\<in>set sims. \<exists>r. snd p = Num r"
  shows "sorted_wrt (\<lambda>a b. \<exists>x y. snd a = Num x \<and> snd b = Num y \<and> y \<le> x)
           (jsSort (\<lambda>a b. positive (jsSub (snd b) (snd a))) sims)"
    and "filter (\<lambda>p. snd p = s) (jsSort (\<lambda>a b. positive (jsSub (snd b) (snd a))) sims) =
         filter (\<lambda>p. snd p = s) sims"
proof -
  let ?after = "\<lambda>a b. positive (jsSub (snd b) (snd a))"
  let ?key = "\<lambda>p. case snd p of Num r \<Rightarrow> r | NaN \<Rightarrow> 0"
  have num: "snd p = Num (?key p)" if "p \<in> set sims" for p
    using assms that by force
  have cmp: "\<forall>x\<in>set sims. \<forall>y\<in>set sims. ?after x y = (?key x < ?key y)"
  proof (intro ballI)
    fix x y assume "x \<in> set sims" "y \<in> set sims"
    then obtain a b where "snd x = Num a" "snd y = Num b"
      using assms by blast
    then show "?after x y = (?key x < ?key y)" by simp
  qed
  have "sorted_wrt (\<lambda>a b. ?key b \<le> ?key a) (jsSort ?after sims)"
    using cmp by (rule sorted_jsSort)
  then show "sorted_wrt (\<lambda>a b. \<exists>x y. snd a = Num x \<and> snd b = Num y \<and> y \<le> x)
               (jsSort ?after sims)"
  proof (rule sorted_wrt_mono_rel [rotated])
    fix a b assume "a \<in> set (jsSort ?after sims)" "b \<in> set (jsSort ?after sims)"
      and "?key b \<le> ?key a"
    then have "a \<in> set sims" "b \<in> set sims" and le: "?key b \<le> ?key a"
      by (simp_all add: set_jsSort)
    then have "snd a = Num (?key a)" "snd b = Num (?key b)"
      using num by blast+
    with le show "\<exists>x y. snd a = Num x \<and> snd b = Num y \<and> y \<le> x"
      by blast
  qed
  show "filter (\<lambda>p. snd p = s) (jsSort ?after sims) = filter (\<lambda>p. snd p = s) sims"
  proof (cases s)
    case (Num k)
    have "filter (\<lambda>p. ?key p = k) (jsSort ?after sims) = filter (\<lambda>p. ?key p = k) sims"
      using cmp by (rule stable_jsSort)
    moreover have "filter (\<lambda>p. snd p = s) xs = filter (\<lambda>p. ?key p = k) xs"
      if "set xs \<subseteq> set sims" for xs
      using that num Num by (intro filter_cong) auto
    ultimately show ?thesis by (simp add: set_jsSort)
  next
    case NaN
    have "filter (\<lambda>p. snd p = s) xs = []" if "set xs \<subseteq> set sims" for xs
      using that assms NaN by (fastforce simp: filter_empty_conv)
    then show ?thesis by (simp add: set_jsSort)
  qed
qed

lemma length_chunks_constructor:
  "length (chunks (constructor documentChunks)) = length documentChunks"
  by (simp add: constructor_def initializeStore_def Let_def)

section \<open>The claims\<close>

subsection \<open>C1: term frequencies\<close>

text \<open>
  C1 says that the TF-IDF vector of a chunk is computed from raw occurrence counts:
  \<open>tf = rawOccurrenceCount / totalRawTermCount\<close>, with \<open>termCount\<close> the total raw term
  count, so that a term occurring \<open>k > 1\<close> times has frequency \<open>k\<close>. The code counts the
  frequencies in the list that \<open>extractTerms\<close> returns, from which the duplicates are gone.
  For the chunks \<open>cat cat dog\<close> and \<open>bird fish\<close>: the term \<open>cat\<close> occurs twice among the
  three surviving tokens of the first chunk and has the inverse document frequency \<open>ln 2\<close>,
  so C1 gives it the weight \<open>2/3 * ln 2\<close> and the chunk the term count 3; the store holds
  the weight \<open>1/2 * ln 2\<close> and the term count 2.
\<close>

theorem calculateTFIDF_counts_deduplicated_terms:
  "map (\<lambda>c. (tfidfVector c, termCount c))
       (chunks (constructor [chunkOf 0 ''cat cat dog'', chunkOf 1 ''bird fish''])) =
     [([(''cat'', ln 2 / 2), (''dog'', ln 2 / 2)], 2),
      ([(''bird'', ln 2 / 2), (''fish'', ln 2 / 2)], 2)] \<and>
   getOrZero (idfScores (constructor [chunkOf 0 ''cat cat dog'', chunkOf 1 ''bird fish''])) ''cat''
     = ln 2 \<and>
   rawOccurrenceCount ''cat'' ''cat cat dog'' = 2 \<and>
   totalRawTermCount ''cat cat dog'' = 3 \<and>
   real (rawOccurrenceCount ''cat'' ''cat cat dog'') / real (totalRawTermCount ''cat cat dog'')
     * ln 2 \<noteq> ln 2 / 2"
proof -
  have tokens: "survivingTokens ''cat cat dog'' = [''cat'', ''cat'', ''dog'']"
    by code_simp
  have raw: "rawOccurrenceCount ''cat'' ''cat cat dog'' = 2" "totalRawTermCount ''cat cat dog'' = 3"
    by (simp_all add: rawOccurrenceCount_def totalRawTermCount_def tokens)
  have "ln (2::real) \<noteq> 0" by simp
  then have "2 / 3 * ln (2::real) \<noteq> ln 2 / 2" by simp
  then show ?thesis
    by (simp add: raw store_defs extractTerms_examples)
qed

subsection \<open>C2: chunk sizes\<close>

text \<open>
  C2 says that every chunk \<open>chunkText\<close> emits has a text of at least \<open>minSize\<close> = 200
  characters. The chunker compares the break position (or the length of the buffer) with
  \<open>minSize\<close> and trims the text afterwards, and \<open>findGoodBreakPoint\<close> counts one character
  for each sentence end, however long it is. Take a first paragraph of 198 times \<open>a\<close> and a
  full stop, and a second paragraph that is \<open>1. \<close> and 600 times \<open>c\<close>, two line feeds
  between them: the buffer holds both paragraphs, the break position is 201, just behind
  the two line feeds, and the first chunk is the 199 characters of the first paragraph.
\<close>

theorem chunkText_emits_chunk_below_minSize:
  "map (\<lambda>c. (chunkIndex c, length (ctext c)))
       (chunkText (replicate 198 CHR ''a'' @ [CHR ''.'', CHR 0x0A, CHR 0x0A] @ ''1. '' @
                   replicate 600 CHR ''c'') []) =
     [(0, 199), (1, 703)] \<and>
   minSize = 200"
  by (simp add: chunker_defs eval_simps)

subsection \<open>C3: queries before initialization\<close>

text \<open>
  C3 says that a search or a stats query before the index is built fails with
  \<open>NotInitialized\<close>, and only then. For \<open>getStats\<close> this is not so: it has no failing
  branch, and on the store as it is before initialization it returns the statistics, with
  the flag \<open>isInitialized\<close> false.
\<close>

theorem getStats_before_initialization_counterexample:
  "\<not> isInitialized newStore \<and> getStats newStore \<noteq> Inl NotInitialized \<and>
   getStats newStore =
     Inr \<lparr>chunkCount = 0, vocabularySize = 0, averageChunkLength = 0, isInitializedStat = False\<rparr>"
  by (simp add: newStore_def getStats_def)

text \<open>
  C3 as amended: \<open>search\<close> fails with \<open>NotInitialized\<close> if and only if the flag
  \<open>isInitialized\<close> of the store is false; \<open>getStats\<close> never fails and reports the flag.
\<close>

theorem search_NotInitialized_iff_getStats_total:
  "(search regExp this query topK = Inl NotInitialized) = (\<not> isInitialized this) \<and>
   (\<exists>stats. getStats this = Inr stats \<and> isInitializedStat stats = isInitialized this)"
proof -
  have "search regExp this query topK = Inl NotInitialized" if "\<not> isInitialized this"
    using that by (simp add: search_def Let_def)
  moreover have "search regExp this query topK \<noteq> Inl NotInitialized" if "isInitialized this"
    using search_initialized [OF that, of regExp query topK] by auto
  ultimately show ?thesis
    by (auto simp: getStats_def Let_def)
qed

text \<open>The amended C3 on the store before initialization and on a constructed store.\<close>

theorem search_NotInitialized_iff_getStats_total_witness:
  "search noPatterns newStore ''cats'' (Some 3) = Inl NotInitialized \<and>
   (\<exists>stats. getStats newStore = Inr stats \<and> \<not> isInitializedStat stats) \<and>
   search noPatterns (constructor [chunkOf 0 ''cats purr'']) ''cats'' (Some 3)
     \<noteq> Inl NotInitialized"
  using search_NotInitialized_iff_getStats_total [of noPatterns newStore "''cats''" "Some 3"]
    search_NotInitialized_iff_getStats_total
      [of noPatterns "constructor [chunkOf 0 ''cats purr'']" "''cats''" "Some 3"]
    isInitialized_constructor [of "[chunkOf 0 ''cats purr'']"]
  by (simp add: newStore_def)

subsection \<open>C4: bounds of the similarity\<close>

text \<open>
  C4 says that the cosine similarity of every chunk and query lies between 0 and 1. A vector
  is a plain object, and \<open>vector[key] || 0\<close> reads an inherited property where the vector
  has no own one: for the key \<open>constructor\<close> that is a function, which is truthy and
  multiplies to \<open>NaN\<close>. With the chunks \<open>constructor pattern\<close> and \<open>other words\<close>, the query
  \<open>pattern\<close> has the similarity \<open>NaN\<close> to the first chunk.
\<close>

theorem similarity_NaN_on_inherited_key:
  "map snd (similarities
              (constructor [chunkOf 0 ''constructor pattern'', chunkOf 1 ''other words''])
              (extractTerms ''pattern'')) =
     [NaN, Num 0]"
  by (simp add: store_defs search_defs extractTerms_examples)

subsection \<open>C5: zero vectors\<close>

text \<open>
  C5 says that the similarity is 0 whenever one of the two vectors has norm zero, as for a
  query of stop words only. The query \<open>the and of\<close> has the empty vector; against the chunk
  \<open>constructor pattern\<close> of the same store the similarity is \<open>NaN\<close>, by the inherited
  property that C4 meets.
\<close>

theorem zero_query_vector_similarity_NaN:
  "calculateTFIDF (constructor [chunkOf 0 ''constructor pattern'', chunkOf 1 ''other words''])
     (extractTerms ''the and of'') = [] \<and>
   map (\<lambda>c. cosineSimilarity [] (tfidfVector c))
       (chunks (constructor [chunkOf 0 ''constructor pattern'', chunkOf 1 ''other words''])) =
     [NaN, Num 0]"
  by (simp add: store_defs search_defs extractTerms_examples)

subsection \<open>C6: the order of the results\<close>

text \<open>
  C6 says that \<open>search\<close> returns the chunks in descending order of similarity, ties in the
  original order. A similarity \<open>NaN\<close> makes the comparison function answer \<open>NaN\<close>, which
  counts as equal, against both its neighbours. With the chunks \<open>other words\<close>,
  \<open>constructor stuff\<close> and \<open>pattern\<close>, the query \<open>pattern\<close> finds the order unchanged: the
  chunk of similarity 0 first, the chunk of similarity 1 last. (A sort that compares
  neighbours first, as the insertion sort of the model and the run detection of V8 do,
  finds each pair equal and never compares the first chunk with the last.)
\<close>

theorem search_ranks_zero_above_one:
  "map_sum id (map (\<lambda>r. (chunkIndex (chunk r), similarity r)))
     (search regExp
             (constructor [chunkOf 0 ''other words'', chunkOf 1 ''constructor stuff'',
                           chunkOf 2 ''pattern''])
             ''pattern'' (Some 3)) =
   Inr [(0, Num 0), (1, NaN), (2, Num 1)]"
proof -
  let ?store = "constructor [chunkOf 0 ''other words'', chunkOf 1 ''constructor stuff'',
                             chunkOf 2 ''pattern'']"
  from search_initialized [OF isInitialized_constructor, of regExp _ "''pattern''" "Some 3"]
  obtain results where r: "search regExp ?store ''pattern'' (Some 3) = Inr results"
    and m: "map (\<lambda>r. (chunk r, similarity r)) results =
       sliceTo 3 (jsSort (\<lambda>a b. positive (jsSub (snd b) (snd a)))
                         (similarities ?store (extractTerms ''pattern'')))"
    by auto
  have "map (\<lambda>r. (chunkIndex (chunk r), similarity r)) results =
        map (\<lambda>(c, s). (chunkIndex c, s)) (map (\<lambda>r. (chunk r, similarity r)) results)"
    by simp
  also have "\<dots> = [(0, Num 0), (1, NaN), (2, Num 1)]"
    unfolding m by (simp add: store_defs search_defs extractTerms_examples)
  finally show ?thesis unfolding r by simp
qed

subsection \<open>C7: the number of results\<close>

text \<open>
  C7 says that on an initialized store of \<open>totalChunks\<close> chunks, \<open>search(q, k)\<close> with
  \<open>k \<ge> 0\<close> returns exactly \<open>min(k, totalChunks)\<close> results, and that \<open>k\<close> is 5 when it is
  left out.
\<close>

theorem search_returns_min_topK_totalChunks:
  assumes "isInitialized this" and "0 \<le> k"
  shows "(\<exists>results. search regExp this query (Some k) = Inr results \<and>
            length results = min (nat k) (length (chunks this))) \<and>
         search regExp this query None = search regExp this query (Some 5)"
  using assms search_initialized_length [of this regExp query "Some k"]
  by (auto simp: length_sliceTo search_def)

text \<open>C7 on a store of two chunks with \<open>k = 1\<close>.\<close>

theorem search_returns_min_topK_totalChunks_witness:
  "isInitialized (constructor [chunkOf 0 ''cats purr'', chunkOf 1 ''cats bark'']) \<and> (0::int) \<le> 1 \<and>
   (\<exists>results. search noPatterns (constructor [chunkOf 0 ''cats purr'', chunkOf 1 ''cats bark''])
                  ''cats'' (Some 1) = Inr results \<and> length results = 1)"
  using search_returns_min_topK_totalChunks
      [of "constructor [chunkOf 0 ''cats purr'', chunkOf 1 ''cats bark'']" 1 noPatterns "''cats''"]
    isInitialized_constructor [of "[chunkOf 0 ''cats purr'', chunkOf 1 ''cats bark'']"]
  by (simp add: length_chunks_constructor)

subsection \<open>C8: inverse document frequencies\<close>

text \<open>
  C8 says that a term contained in all \<open>N\<close> chunks has IDF 0, that a term contained in
  exactly one of the \<open>N\<close> chunks has a strictly higher IDF than a term contained in all of
  them, and that only terms of document frequency at least 1 have an IDF. With a single
  chunk, a term of that chunk is in exactly one chunk and in all of them: the IDF of
  \<open>cats\<close> is 0 and is not above the IDF of \<open>purr\<close>, which is 0 too.
\<close>

theorem idf_single_chunk_counterexample:
  "documentFrequency [chunkOf 0 ''cats purr''] ''cats'' = 1 \<and>
   documentFrequency [chunkOf 0 ''cats purr''] ''purr'' = length [chunkOf 0 ''cats purr''] \<and>
   map_of (idfScores (constructor [chunkOf 0 ''cats purr''])) ''cats'' = Some 0 \<and>
   map_of (idfScores (constructor [chunkOf 0 ''cats purr''])) ''purr'' = Some 0 \<and>
   \<not> getOrZero (idfScores (constructor [chunkOf 0 ''cats purr''])) ''purr''
       < getOrZero (idfScores (constructor [chunkOf 0 ''cats purr''])) ''cats''"
  by (simp add: store_defs documentFrequency_def extractTerms_examples)

text \<open>
  C8 as amended: over \<open>N \<ge> 1\<close> chunks a term contained in all of them has IDF exactly 0;
  over \<open>N \<ge> 2\<close> chunks a term contained in exactly one chunk has a strictly higher IDF
  than a term contained in all \<open>N\<close>; a term has an IDF if and only if its document
  frequency is at least 1.
\<close>

theorem idf_zero_and_monotone:
  "(documentFrequency documentChunks u = length documentChunks \<and> 1 \<le> length documentChunks
      \<longrightarrow> map_of (idfScores (constructor documentChunks)) u = Some 0) \<and>
   (documentFrequency documentChunks t = 1 \<and>
    documentFrequency documentChunks u = length documentChunks \<and> 2 \<le> length documentChunks
      \<longrightarrow> (\<exists>x. map_of (idfScores (constructor documentChunks)) t = Some x \<and>
                getOrZero (idfScores (constructor documentChunks)) u < x)) \<and>
   ((\<exists>x. map_of (idfScores (constructor documentChunks)) t = Some x) =
      (1 \<le> documentFrequency documentChunks t))"
  by (auto simp: idfScores_constructor getOrZero_def)

text \<open>The amended C8 on two chunks: \<open>cats\<close> is in both, \<open>purr\<close> in one.\<close>

theorem idf_zero_and_monotone_witness:
  "documentFrequency [chunkOf 0 ''cats purr'', chunkOf 1 ''cats bark''] ''purr'' = 1 \<and>
   documentFrequency [chunkOf 0 ''cats purr'', chunkOf 1 ''cats bark''] ''cats'' = 2 \<and>
   length [chunkOf 0 ''cats purr'', chunkOf 1 ''cats bark''] = 2 \<and>
   map_of (idfScores (constructor [chunkOf 0 ''cats purr'', chunkOf 1 ''cats bark''])) ''cats''
     = Some 0 \<and>
   (\<exists>x. map_of (idfScores (constructor [chunkOf 0 ''cats purr'', chunkOf 1 ''cats bark'']))
           ''purr'' = Some x \<and> 0 < x)"
proof -
  have df: "documentFrequency [chunkOf 0 ''cats purr'', chunkOf 1 ''cats bark''] ''purr'' = 1"
    "documentFrequency [chunkOf 0 ''cats purr'', chunkOf 1 ''cats bark''] ''cats'' = 2"
    by (simp_all add: documentFrequency_def chunkOf_def createChunk_def extractTerms_examples)
  show ?thesis
    using idf_zero_and_monotone
      [of "[chunkOf 0 ''cats purr'', chunkOf 1 ''cats bark'']" "''cats''" "''purr''"] df
    by (auto simp: getOrZero_def)
qed

subsection \<open>C9: key sentences\<close>


subsection \<open>C10: the constructor initializes\<close>

text \<open>
  C10 says that the constructor leaves \<open>isInitialized\<close> true for every list of chunks, the
  empty one included, so that \<open>search\<close> on a constructed store never throws: the branch
  \<open>NotInitialized\<close> is not taken, and every pattern that \<open>extractKeySentences\<close> builds from
  the terms of the query is a literal one.
\<close>

theorem constructor_initializes_search_returns:
  "isInitialized (constructor documentChunks) \<and>
   (\<exists>results. search regExp (constructor documentChunks) query topK = Inr results) \<and>
   list_all literalPattern (extractTerms query)"
  using search_initialized [OF isInitialized_constructor] isInitialized_constructor
    extractTerms_literal by blast

end
